theory Spec2Isabelle
  imports Main "HOL-Library.Word" "HOL-Library.AList"
begin

section \<open>JavaScript values\<close>

text \<open>
  The program under study is \<^verbatim>\<open>src/api/generate.js\<close>: one HTTP handler that keeps a
  per-user conversation record in a JSON file, sends the conversation to a chat completion
  service, strips a list of phrases from the reply, makes sure the reply carries an emoji
  and writes the record back.

  A JavaScript string is a sequence of UTF-16 code units. The regular expressions of the
  program carry no \<^verbatim>\<open>u\<close> flag, so they see code units, never code points: an emoji
  outside the basic plane is two units, a high and a low surrogate.
\<close>

type_synonym jschar = "16 word"

type_synonym jsstring = "jschar list"

definition js :: "string \<Rightarrow> jsstring" where
  \<comment> \<open>an ASCII literal as code units\<close>
  "js s = map of_char s"

text \<open>
  The values the handler meets come out of \<^verbatim>\<open>JSON.parse\<close> (the request body, the stored
  file) or are built by the handler from them. A number is kept as the string
  \<^verbatim>\<open>Number.prototype.toString\<close> gives for it; the program uses a number only in a
  template literal and in a truthiness test. An object is its list of own properties.
\<close>

datatype jsval =
    JUndefined
  | JNull
  | JBool bool
  | JNum jsstring
  | JStr jsstring
  | JArr "jsval list"
  | JObj "(jsstring \<times> jsval) list"

datatype exn =
    TypeError
  | ServiceError jsstring

fun truthy :: "jsval \<Rightarrow> bool" where
  "truthy JUndefined = False"
| "truthy JNull = False"
| "truthy (JBool b) = b"
| "truthy (JNum n) = (n \<noteq> js ''0'' \<and> n \<noteq> js ''NaN'')"
| "truthy (JStr s) = (s \<noteq> [])"
| "truthy (JArr xs) = True"
| "truthy (JObj kv) = True"

fun is_string :: "jsval \<Rightarrow> bool" where
  \<comment> \<open>\<^verbatim>\<open>typeof v === "string"\<close>\<close>
  "is_string (JStr s) = True"
| "is_string v = False"

fun join_strings :: "jsstring list \<Rightarrow> jsstring" where
  "join_strings [] = []"
| "join_strings [s] = s"
| "join_strings (s # t # ss) = s @ js '','' @ join_strings (t # ss)"

fun sequence :: "(exn + 'a) list \<Rightarrow> exn + 'a list" where
  "sequence [] = Inr []"
| "sequence (x # xs) =
     (case x of
        Inl e \<Rightarrow> Inl e
      | Inr v \<Rightarrow> (case sequence xs of Inl e \<Rightarrow> Inl e | Inr vs \<Rightarrow> Inr (v # vs)))"

fun to_string :: "jsval \<Rightarrow> exn + jsstring" where
  \<comment> \<open>the conversion a template literal applies (\<^verbatim>\<open>ToString\<close>). An array joins its
      elements with commas, \<^verbatim>\<open>null\<close> elements as the empty string. An object parsed from JSON
      has no callable property: with an own \<^verbatim>\<open>toString\<close> property the conversion finds
      nothing to call and throws, without one it reaches \<^verbatim>\<open>Object.prototype.toString\<close>.\<close>
  "to_string JUndefined = Inr (js ''undefined'')"
| "to_string JNull = Inr (js ''null'')"
| "to_string (JBool b) = Inr (if b then js ''true'' else js ''false'')"
| "to_string (JNum n) = Inr n"
| "to_string (JStr s) = Inr s"
| "to_string (JArr xs) =
     (case sequence (map (\<lambda>x. if x = JNull \<or> x = JUndefined then Inr [] else to_string x) xs) of
        Inl e \<Rightarrow> Inl e
      | Inr ss \<Rightarrow> Inr (join_strings ss))"
| "to_string (JObj kv) =
     (if map_of kv (js ''toString'') = None then Inr (js ''[object Object]'') else Inl TypeError)"

fun get_prop :: "jsval \<Rightarrow> jsstring \<Rightarrow> exn + jsval" where
  \<comment> \<open>\<^verbatim>\<open>v.k\<close> for the property names this program reads (\<^verbatim>\<open>prompt\<close>, \<^verbatim>\<open>project\<close>,
      \<^verbatim>\<open>userId\<close>, \<^verbatim>\<open>conversation\<close>, \<^verbatim>\<open>lastProject\<close>, \<^verbatim>\<open>lastTask\<close>): none
      of them is a property of a built-in prototype, so a primitive and a parsed array
      answer \<^verbatim>\<open>undefined\<close>. Reading a property of \<^verbatim>\<open>null\<close> or \<^verbatim>\<open>undefined\<close> throws.\<close>
  "get_prop JUndefined k = Inl TypeError"
| "get_prop JNull k = Inl TypeError"
| "get_prop (JObj kv) k = Inr (case map_of kv k of None \<Rightarrow> JUndefined | Some v \<Rightarrow> v)"
| "get_prop v k = Inr JUndefined"

fun set_prop :: "jsval \<Rightarrow> jsstring \<Rightarrow> jsval \<Rightarrow> exn + jsval" where
  \<comment> \<open>\<^verbatim>\<open>v.k = x\<close> in module code, which is strict: on \<^verbatim>\<open>null\<close>, \<^verbatim>\<open>undefined\<close> and on a
      primitive the assignment throws. An array takes the named property, which this
      model does not keep: a parsed array has no \<^verbatim>\<open>conversation\<close>, and the handler
      throws on it before it reads any property it has set.\<close>
  "set_prop (JObj kv) k x = Inr (JObj (AList.update k x kv))"
| "set_prop (JArr xs) k x = Inr (JArr xs)"
| "set_prop v k x = Inl TypeError"

section \<open>Paths\<close>

text \<open>
  \<^verbatim>\<open>path.join\<close> of Node (POSIX) joins its non-empty arguments with a slash and
  normalises the result: empty segments and \<^verbatim>\<open>.\<close> segments are dropped, a \<^verbatim>\<open>..\<close>
  segment removes the segment before it (at the root of an absolute path it is dropped,
  in front of a relative path it is kept), and a trailing slash is kept.
\<close>

abbreviation slash :: jschar where
  "slash \<equiv> 0x2F"

fun split_path :: "jsstring \<Rightarrow> jsstring list" where
  \<comment> \<open>the segments between slashes\<close>
  "split_path [] = [[]]"
| "split_path (c # cs) =
     (if c = slash then [] # split_path cs
      else (case split_path cs of
              [] \<Rightarrow> [[c]]
            | seg # segs \<Rightarrow> (c # seg) # segs))"

fun normalize_segments :: "bool \<Rightarrow> jsstring list \<Rightarrow> jsstring list \<Rightarrow> jsstring list" where
  \<comment> \<open>the segments kept so far are held last first\<close>
  "normalize_segments up kept [] = rev kept"
| "normalize_segments up kept (seg # segs) =
     (if seg = [] \<or> seg = js ''.'' then normalize_segments up kept segs
      else if seg = js ''..'' then
        (case kept of
           [] \<Rightarrow> normalize_segments up (if up then [seg] else []) segs
         | k # ks \<Rightarrow>
             if k = js ''..'' then normalize_segments up (seg # kept) segs
             else normalize_segments up ks segs)
      else normalize_segments up (seg # kept) segs)"

fun join_segments :: "jsstring list \<Rightarrow> jsstring" where
  "join_segments [] = []"
| "join_segments [s] = s"
| "join_segments (s # t # ss) = s @ [slash] @ join_segments (t # ss)"

definition normalize :: "jsstring \<Rightarrow> jsstring" where
  "normalize p =
     (if p = [] then js ''.''
      else
        let absolute = (hd p = slash);
            trailing = (last p = slash);
            body = join_segments (normalize_segments (\<not> absolute) [] (split_path p))
        in if body = [] then (if absolute then [slash] else if trailing then js ''./'' else js ''.'')
           else (if absolute then [slash] else []) @ body @ (if trailing then [slash] else []))"

definition path_join :: "jsstring \<Rightarrow> jsstring \<Rightarrow> jsstring" where
  "path_join a b =
     (if a = [] \<and> b = [] then js ''.''
      else if a = [] then normalize b
      else if b = [] then normalize a
      else normalize (a @ [slash] @ b))"

definition MEMORY_DIR :: jsstring where
  "MEMORY_DIR = js ''/tmp/memory''"

definition memory_path :: "jsval \<Rightarrow> exn + jsstring" where
  \<comment> \<open>\<^verbatim>\<open>path.join(MEMORY_DIR, `memory_${userId}.json`)\<close>\<close>
  "memory_path userId =
     (case to_string userId of
        Inl e \<Rightarrow> Inl e
      | Inr s \<Rightarrow> Inr (path_join MEMORY_DIR (js ''memory_'' @ s @ js ''.json'')))"

section \<open>The memory store\<close>

text \<open>
  The store is the directory \<^verbatim>\<open>/tmp/memory\<close>, made when the module is loaded. A file
  is known by what reading it gives:
  text on which \<^verbatim>\<open>JSON.parse\<close> returns a value, text on which it throws, or an entry
  that exists and cannot be read (\<^verbatim>\<open>readFileSync\<close> throws). \<^verbatim>\<open>saveMemory\<close> writes
  \<^verbatim>\<open>JSON.stringify(memory, null, 2)\<close>; the record it is given is built from parsed JSON
  and from strings, so parsing the written text gives the record back, and the file
  written is kept as that record. Whether a write to a path goes through is the
  environment's choice (\<open>write_fails\<close>: a full disk, a missing parent directory, as for
  a \<^verbatim>\<open>userId\<close> with a slash). The trace lists the file system calls made, in order.
\<close>

datatype stored =
    Parses jsval
  | Malformed
  | Unreadable

datatype fs_call =
    ExistsSync jsstring
  | ReadFileSync jsstring
  | WriteFileSync jsstring

record world =
  files :: "jsstring \<Rightarrow> stored option"
  write_fails :: "jsstring \<Rightarrow> bool"
  trace :: "fs_call list"

definition called :: "fs_call \<Rightarrow> world \<Rightarrow> world" where
  "called c w = w\<lparr>trace := trace w @ [c]\<rparr>"

definition SYSTEM_PROMPT :: jsstring where
  "SYSTEM_PROMPT = concat
    [[0x000A],
     js ''You are **Max CodeGen AI** '' @ [0x2014] @ js '' a lively, expressive coding companion '' @ [0xD83E, 0xDD16, 0xD83D, 0xDCAB] @ js '' with a Kenyan soul '' @ [0xD83C, 0xDDF0, 0xD83C, 0xDDEA] @ js ''.'' @ [0x000A],
     [0x000A],
     [0xD83D, 0xDD25] @ js '' LANGUAGE MODE:'' @ [0x000A],
     [0x2022] @ js '' You understand and reply in English, Swahili, or Sheng '' @ [0x2014] @ js '' auto-detect from what the user types.'' @ [0x000A],
     [0x2022] @ js '' When user writes in English '' @ [0x2014] @ js '' reply friendly, clear, slightly casual.'' @ [0x000A],
     [0x2022] @ js '' When user writes in **Swahili (formal)** '' @ [0x2014] @ js '' reply in grammatically correct, fluent Swahili, e.g.:'' @ [0x000A],
     js ''  '' @ [0x201C] @ js ''Sawa, hebu tuangalie sehemu hii ya msimbo kwa makini. Hapa kuna kosa dogo tu. '' @ [0xD83D, 0xDE0A, 0x201D, 0x000A],
     [0x2022] @ js '' When user writes in **Sheng or mixed Swahili-English** '' @ [0x2014] @ js '' sound real, local, and smooth like Nairobi devs:'' @ [0x000A],
     js ''  '' @ [0x201C] @ js ''Acha stress buda '' @ [0xD83D, 0xDE0E] @ js '', hii code tutaipanga poa tu, relax bana '' @ [0xD83D, 0xDCAA, 0xD83D, 0xDD25, 0x201D, 0x000A],
     [0x2022] @ js '' You can mix English words naturally when replying in Sheng (authentic tone).'' @ [0x000A],
     [0x2022] @ js '' **Never use awkward literal translations** '' @ [0x2014] @ js '' sound like a *human Kenyan*.'' @ [0x000A],
     [0x000A],
     [0xD83E, 0xDDE0] @ js '' PERSONALITY:'' @ [0x000A],
     [0x2022] @ js '' Be expressive, lively, and emotionally aware.'' @ [0x000A],
     [0x2022] @ js '' Use emojis that fit the mood '' @ [0x2014] @ js '' not spammy.'' @ [0x000A],
     [0x2022] @ js '' When user seems sad '' @ [0x2014] @ js '' be gentle and real ('' @ [0xD83D, 0xDE14, 0xD83D, 0xDC99, 0xD83E, 0xDD17] @ js '').'' @ [0x000A],
     [0x2022] @ js '' When explaining tech '' @ [0x2014] @ js '' be sharp, confident, and energetic ('' @ [0xD83D, 0xDE80, 0xD83D, 0xDCA1, 0xD83E, 0xDDE0, 0xD83D, 0xDCBB] @ js '').'' @ [0x000A],
     [0x2022] @ js '' Format code with markdown (like '' @ [0x0060, 0x0060, 0x0060] @ js ''js, '' @ [0x0060, 0x0060, 0x0060] @ js ''python, etc.).'' @ [0x000A],
     [0x2022] @ js '' Never say you'' @ [0x0027] @ js ''re an AI or mention models.'' @ [0x000A],
     [0x2022] @ js '' Keep the tone warm, witty, human '' @ [0x2014] @ js '' like a friend who codes '' @ [0x2728, 0x000A],
     js ''        '']"

definition turn :: "string \<Rightarrow> jsval \<Rightarrow> jsval" where
  \<comment> \<open>the object literal \<^verbatim>\<open>{ role: r, content: c }\<close>\<close>
  "turn r c = JObj [(js ''role'', JStr (js r)), (js ''content'', c)]"

definition default_memory :: "jsval \<Rightarrow> jsval" where
  "default_memory userId =
     JObj [(js ''userId'', userId),
           (js ''lastProject'', JNull),
           (js ''lastTask'', JNull),
           (js ''conversation'', JArr [turn ''system'' (JStr SYSTEM_PROMPT)])]"

definition loadMemory :: "world \<Rightarrow> jsval \<Rightarrow> exn + (jsval \<times> world)" where
  \<comment> \<open>The path is built outside the \<^verbatim>\<open>try\<close>. Inside it, a file that exists is read and
      parsed; whatever is thrown there is logged and the default template is returned.\<close>
  "loadMemory w userId =
     (case memory_path userId of
        Inl e \<Rightarrow> Inl e
      | Inr filePath \<Rightarrow>
          (case files w filePath of
             None \<Rightarrow> Inr (default_memory userId, called (ExistsSync filePath) w)
           | Some f \<Rightarrow>
               (let w' = called (ReadFileSync filePath) (called (ExistsSync filePath) w)
                in case f of
                     Parses v \<Rightarrow> Inr (v, w')
                   | Malformed \<Rightarrow> Inr (default_memory userId, w')
                   | Unreadable \<Rightarrow> Inr (default_memory userId, w'))))"

definition saveMemory :: "world \<Rightarrow> jsval \<Rightarrow> jsval \<Rightarrow> exn + world" where
  \<comment> \<open>a write that throws is logged and swallowed\<close>
  "saveMemory w userId memory =
     (case memory_path userId of
        Inl e \<Rightarrow> Inl e
      | Inr filePath \<Rightarrow>
          (let w' = called (WriteFileSync filePath) w
           in if write_fails w filePath then Inr w'
              else Inr (w'\<lparr>files := (files w')(filePath \<mapsto> Parses memory)\<rparr>)))"

section \<open>The reply pipeline\<close>

subsection \<open>Removing the banned phrases\<close>

text \<open>
  Each banned pattern is a literal phrase with the flags \<^verbatim>\<open>g\<close> and \<^verbatim>\<open>i\<close>. Without
  the \<^verbatim>\<open>u\<close> flag a code unit is compared after mapping it to upper case, and a unit
  outside ASCII never maps into ASCII; the phrases are ASCII letters and spaces, so a
  unit of the text matches a unit of a phrase exactly when both are ASCII and equal up
  to the case of a letter.
\<close>

definition canonicalize :: "jschar \<Rightarrow> jschar" where
  "canonicalize c = (if 0x61 \<le> c \<and> c \<le> 0x7A then c - 0x20 else c)"

fun matches_at :: "jsstring \<Rightarrow> jsstring \<Rightarrow> bool" where
  \<comment> \<open>the phrase matches at the start of the text\<close>
  "matches_at [] t = True"
| "matches_at (p # ps) [] = False"
| "matches_at (p # ps) (c # cs) = (canonicalize p = canonicalize c \<and> matches_at ps cs)"

function replace_all :: "jsstring \<Rightarrow> jsstring \<Rightarrow> jsstring" where
  \<comment> \<open>\<^verbatim>\<open>text.replace(/phrase/gi, "")\<close>: one scan from left to right; a match is
      dropped and the scan goes on behind it\<close>
  "replace_all p [] = []"
| "replace_all p (c # cs) =
     (if p \<noteq> [] \<and> matches_at p (c # cs) then replace_all p (drop (length p) (c # cs))
      else c # replace_all p cs)"
  by pat_completeness auto
termination
  by (relation "measure (\<lambda>(p, t). length t)") (auto simp: neq_Nil_conv)

definition bannedPatterns :: "jsstring list" where
  "bannedPatterns =
     [js ''as an ai'',
      js ''i do not have feelings'',
      js ''i am just a language model'',
      js ''as a language model'',
      js ''i cannot experience emotions'',
      js ''i am an artificial intelligence'']"

definition sanitize :: "jsstring \<Rightarrow> jsstring" where
  \<comment> \<open>\<^verbatim>\<open>bannedPatterns.forEach((pattern) => (text = text.replace(pattern, "")))\<close>\<close>
  "sanitize text = foldl (\<lambda>t p. replace_all p t) text bannedPatterns"

subsection \<open>Adding an emoji\<close>

text \<open>
  The test is a character class written with fifteen emoji and no \<^verbatim>\<open>u\<close> flag, so
  its members are the code units of those emoji, surrogate halves included.
\<close>

definition emoji_class :: "jschar list" where
  "emoji_class =
     [0xD83D, 0xDE00, 0xD83D, 0xDE04, 0xD83D, 0xDE0A, 0xD83D, 0xDE09, 0x2728,
      0xD83D, 0xDD25, 0xD83D, 0xDCA1, 0x2764, 0xFE0F, 0xD83D, 0xDC4D, 0xD83C, 0xDF89,
      0xD83D, 0xDE80, 0xD83E, 0xDD17, 0xD83D, 0xDC99, 0xD83D, 0xDE0E, 0xD83D, 0xDCAA]"

definition emoji_test :: "jsstring \<Rightarrow> bool" where
  \<comment> \<open>\<^verbatim>\<open>/[...]/.test(text)\<close>\<close>
  "emoji_test text = list_ex (\<lambda>c. c \<in> set emoji_class) text"

definition emojis :: "jsstring list" where
  "emojis =
     [[0xD83D, 0xDE04], [0xD83D, 0xDCA1], [0x2728], [0xD83D, 0xDD25], [0xD83D, 0xDC4D],
      [0xD83C, 0xDF89], [0xD83D, 0xDE80], [0xD83E, 0xDD17], [0xD83D, 0xDCAA], [0xD83D, 0xDE0E]]"

definition add_emoji :: "nat \<Rightarrow> jsstring \<Rightarrow> jsstring" where
  \<comment> \<open>\<open>k\<close> is \<^verbatim>\<open>Math.floor(Math.random() * emojis.length)\<close>, which lies below
      \<^verbatim>\<open>emojis.length\<close>; an index past the end would read \<^verbatim>\<open>undefined\<close>\<close>
  "add_emoji k text =
     (if emoji_test text then text
      else text @ js '' '' @ (if k < length emojis then emojis ! k else js ''undefined''))"

subsection \<open>The completion service\<close>

text \<open>
  \<^verbatim>\<open>client.chat.completions.create\<close> either throws an error with a message or returns a
  response with a list of choices; a choice may lack its message and a message its
  content.
\<close>

datatype message = Message (content: "jsstring option")

datatype choice = Choice (message: "message option")

datatype completion =
    Throws jsstring
  | Returns "choice list"

definition reply_text :: "choice list \<Rightarrow> jsstring" where
  \<comment> \<open>\<^verbatim>\<open>response.choices[0]?.message?.content || "No reply generated."\<close>\<close>
  "reply_text choices =
     (case choices of
        [] \<Rightarrow> js ''No reply generated.''
      | c # _ \<Rightarrow>
          (case message c of
             None \<Rightarrow> js ''No reply generated.''
           | Some m \<Rightarrow>
               (case content m of
                  None \<Rightarrow> js ''No reply generated.''
                | Some s \<Rightarrow> if s = [] then js ''No reply generated.'' else s)))"

section \<open>The handler\<close>

text \<open>
  The response headers set at the top of the handler and the lines written to the
  console are the same on every path and are left out. The handler awaits one call and
  is otherwise sequential; requests running at the same time are outside this model.
\<close>

record request =
  req_method :: jsstring
  body :: jsval

datatype response =
    End nat
  | Error nat jsstring
  | ServerError jsstring exn
  | Ok jsstring jsval jsval

text \<open>
  \<open>End s\<close> is \<^verbatim>\<open>res.status(s).end()\<close>, \<open>Error s m\<close> is
  \<^verbatim>\<open>res.status(s).json({ error: m })\<close>, \<open>ServerError m e\<close> is the status 500 with
  \<^verbatim>\<open>{ error: m, details: error.message }\<close> for the thrown \<open>e\<close>, and
  \<open>Ok text p t\<close> is the status 200 with
  \<^verbatim>\<open>{ text, memory: { lastProject: p, lastTask: t } }\<close>.
\<close>

fun status :: "response \<Rightarrow> nat" where
  "status (End s) = s"
| "status (Error s m) = s"
| "status (ServerError m e) = 500"
| "status (Ok text p t) = 200"

definition push_conversation :: "jsval \<Rightarrow> jsval \<Rightarrow> exn + jsval" where
  \<comment> \<open>\<^verbatim>\<open>memory.conversation.push(t)\<close>: only an array has a \<^verbatim>\<open>push\<close> to call\<close>
  "push_conversation memory t =
     (case get_prop memory (js ''conversation'') of
        Inl e \<Rightarrow> Inl e
      | Inr (JArr xs) \<Rightarrow> set_prop memory (js ''conversation'') (JArr (xs @ [t]))
      | Inr _ \<Rightarrow> Inl TypeError)"

definition update_context :: "jsval \<Rightarrow> jsval \<Rightarrow> jsval \<Rightarrow> exn + jsval" where
  \<comment> \<open>the three statements under \<^verbatim>\<open>Update context\<close>\<close>
  "update_context memory project prompt =
     (case (if truthy project then set_prop memory (js ''lastProject'') project else Inr memory) of
        Inl e \<Rightarrow> Inl e
      | Inr m1 \<Rightarrow>
          (case set_prop m1 (js ''lastTask'') prompt of
             Inl e \<Rightarrow> Inl e
           | Inr m2 \<Rightarrow> push_conversation m2 (turn ''user'' prompt)))"

definition conversation_of :: "jsval \<Rightarrow> jsval list" where
  "conversation_of memory =
     (case get_prop memory (js ''conversation'') of Inr (JArr xs) \<Rightarrow> xs | _ \<Rightarrow> [])"

definition record_field :: "jsval \<Rightarrow> string \<Rightarrow> jsval" where
  \<comment> \<open>a property of a record that is an object\<close>
  "record_field memory k = (case get_prop memory (js k) of Inr v \<Rightarrow> v | Inl e \<Rightarrow> JUndefined)"

definition post :: "(jsval list \<Rightarrow> completion) \<Rightarrow> nat \<Rightarrow> world \<Rightarrow> jsval \<Rightarrow> (exn + response) \<times> world" where
  \<comment> \<open>the body of the \<^verbatim>\<open>try\<close> block: \<open>Inl\<close> is an exception that reaches the \<^verbatim>\<open>catch\<close>\<close>
  "post create k w b =
     (case (get_prop b (js ''prompt''), get_prop b (js ''project''), get_prop b (js ''userId'')) of
        (Inr prompt, Inr project, Inr userId) \<Rightarrow>
          if \<not> truthy userId then (Inr (Error 400 (js ''Missing userId.'')), w)
          else if \<not> (truthy prompt \<and> is_string prompt) then
            (Inr (Error 400 (js ''Invalid request: prompt required.'')), w)
          else
            (case loadMemory w userId of
               Inl e \<Rightarrow> (Inl e, w)
             | Inr (memory, w1) \<Rightarrow>
                 (case update_context memory project prompt of
                    Inl e \<Rightarrow> (Inl e, w1)
                  | Inr m1 \<Rightarrow>
                      (case create (conversation_of m1) of
                         Throws msg \<Rightarrow> (Inl (ServiceError msg), w1)
                       | Returns choices \<Rightarrow>
                           (let text = add_emoji k (sanitize (reply_text choices))
                            in case push_conversation m1 (turn ''assistant'' (JStr text)) of
                                 Inl e \<Rightarrow> (Inl e, w1)
                               | Inr m2 \<Rightarrow>
                                   (case saveMemory w1 userId m2 of
                                      Inl e \<Rightarrow> (Inl e, w1)
                                    | Inr w2 \<Rightarrow>
                                        (Inr (Ok text (record_field m2 ''lastProject'') (record_field m2 ''lastTask'')),
                                         w2))))))
      | _ \<Rightarrow> (Inl TypeError, w))"

definition handler :: "(jsval list \<Rightarrow> completion) \<Rightarrow> nat \<Rightarrow> world \<Rightarrow> request \<Rightarrow> response \<times> world" where
  "handler create k w req =
     (if req_method req = js ''OPTIONS'' then (End 200, w)
      else if req_method req \<noteq> js ''POST'' then (Error 405 (js ''Method not allowed''), w)
      else
        (case post create k w (body req) of
           (Inr res, w') \<Rightarrow> (res, w')
         | (Inl e, w') \<Rightarrow> (ServerError (js ''Server error. Check backend logs.'') e, w')))"

section \<open>Notions used in the statements\<close>

text \<open>
  The paths written so far, the occurrence of a phrase up to letter case, the text put
  back together from what a scan kept and what it removed, and the presence of one of
  the fifteen emoji of the character class as a whole glyph.
\<close>

definition writes :: "world \<Rightarrow> jsstring list" where
  \<comment> \<open>the paths of the write calls made so far\<close>
  "writes w = concat (map (\<lambda>c. case c of WriteFileSync p \<Rightarrow> [p] | _ \<Rightarrow> []) (trace w))"



fun starts_with :: "jsstring \<Rightarrow> jsstring \<Rightarrow> bool" where
  "starts_with [] t = True"
| "starts_with (g # gs) [] = False"
| "starts_with (g # gs) (c # cs) = (g = c \<and> starts_with gs cs)"

fun contains :: "jsstring \<Rightarrow> jsstring \<Rightarrow> bool" where
  \<comment> \<open>the text holds the code units of the glyph, in a row\<close>
  "contains g [] = starts_with g []"
| "contains g (c # cs) = (starts_with g (c # cs) \<or> contains g cs)"

definition approved_glyphs :: "jsstring list" where
  \<comment> \<open>the fifteen emoji written in the character class\<close>
  "approved_glyphs =
     [[0xD83D, 0xDE00], [0xD83D, 0xDE04], [0xD83D, 0xDE0A], [0xD83D, 0xDE09], [0x2728],
      [0xD83D, 0xDD25], [0xD83D, 0xDCA1], [0x2764, 0xFE0F], [0xD83D, 0xDC4D], [0xD83C, 0xDF89],
      [0xD83D, 0xDE80], [0xD83E, 0xDD17], [0xD83D, 0xDC99], [0xD83D, 0xDE0E], [0xD83D, 0xDCAA]]"

definition has_approved_glyph :: "jsstring \<Rightarrow> bool" where
  "has_approved_glyph text = list_ex (\<lambda>g. contains g text) approved_glyphs"

section \<open>Example inputs\<close>

definition empty_world :: world where
  "empty_world = \<lparr>files = (\<lambda>p. None), write_fails = (\<lambda>p. False), trace = []\<rparr>"

definition hello_request :: request where
  "hello_request =
     \<lparr>req_method = js ''POST'',
      body = JObj [(js ''prompt'', JStr (js ''hi'')), (js ''userId'', JStr (js ''u1''))]\<rparr>"

definition u1_path :: jsstring where
  "u1_path = js ''/tmp/memory/memory_u1.json''"

definition failing_service :: "jsval list \<Rightarrow> completion" where
  "failing_service messages = Throws (js ''timeout'')"

definition ok_service :: "jsval list \<Rightarrow> completion" where
  "ok_service messages = Returns [Choice (Some (Message (Some (js ''ok''))))]"

definition full_disk :: world where
  "full_disk = \<lparr>files = (\<lambda>p. None), write_fails = (\<lambda>p. True), trace = []\<rparr>"

definition old_record :: jsval where
  "old_record =
     JObj [(js ''userId'', JStr (js ''u1'')),
           (js ''lastProject'', JStr (js ''Alpha'')),
           (js ''lastTask'', JStr (js ''old'')),
           (js ''conversation'',
            JArr [turn ''system'' (JStr SYSTEM_PROMPT), turn ''user'' (JStr (js ''old'')),
                  turn ''assistant'' (JStr (js ''fine'' @ [0x2728]))])]"

definition known_world :: world where
  "known_world =
     \<lparr>files = (\<lambda>p. if p = u1_path then Some (Parses old_record) else None),
      write_fails = (\<lambda>p. False), trace = []\<rparr>"

definition known_full_disk :: world where
  "known_full_disk =
     \<lparr>files = (\<lambda>p. if p = u1_path then Some (Parses old_record) else None),
      write_fails = (\<lambda>p. True), trace = []\<rparr>"



definition malformed_world :: world where
  "malformed_world =
     \<lparr>files = (\<lambda>p. if p = u1_path then Some Malformed else None),
      write_fails = (\<lambda>p. False), trace = []\<rparr>"



definition get_request :: request where
  "get_request = \<lparr>req_method = js ''GET'', body = JUndefined\<rparr>"

definition empty_body_request :: request where
  "empty_body_request = \<lparr>req_method = js ''POST'', body = JObj []\<rparr>"

definition no_prompt_request :: request where
  "no_prompt_request =
     \<lparr>req_method = js ''POST'', body = JObj [(js ''userId'', JStr (js ''u1''))]\<rparr>"

definition empty_strings_request :: request where
  "empty_strings_request =
     \<lparr>req_method = js ''POST'',
      body = JObj [(js ''prompt'', JStr []), (js ''userId'', JStr [])]\<rparr>"

definition no_body_request :: request where
  "no_body_request = \<lparr>req_method = js ''POST'', body = JNull\<rparr>"

definition big_o :: jsstring where
  \<comment> \<open>the mathematical script capital O, U+1D4AA, before \<^verbatim>\<open>(n)\<close>: no emoji at all\<close>
  "big_o = [0xD835, 0xDCAA] @ js ''(n)''"

definition pole_sana :: jsstring where
  \<comment> \<open>a reply that ends in the pensive face, U+1F614\<close>
  "pole_sana = js ''Pole sana '' @ [0xD83D, 0xDE14]"


section \<open>Properties of the model\<close>

subsection \<open>Updates of a record\<close>

lemma key_neq:
  "js ''lastProject'' \<noteq> js ''conversation''"
  "js ''lastTask'' \<noteq> js ''conversation''"
  "js ''lastTask'' \<noteq> js ''lastProject''"
  "js ''conversation'' \<noteq> js ''lastProject''"
  "js ''conversation'' \<noteq> js ''lastTask''"
  "js ''lastProject'' \<noteq> js ''lastTask''"
  by (simp_all add: js_def)

lemma get_prop_array_object:
  "get_prop v k = Inr (JArr xs) \<Longrightarrow> \<exists>kv. v = JObj kv \<and> map_of kv k = Some (JArr xs)"
  by (cases v) (auto split: option.splits)

lemma update_context_record:
  assumes "get_prop memory (js ''conversation'') = Inr (JArr old)"
  shows "\<exists>m1. update_context memory project prompt = Inr m1
    \<and> get_prop m1 (js ''conversation'') = Inr (JArr (old @ [turn ''user'' prompt]))
    \<and> get_prop m1 (js ''lastTask'') = Inr prompt
    \<and> get_prop m1 (js ''lastProject'') =
        Inr (if truthy project then project else record_field memory ''lastProject'')
    \<and> conversation_of m1 = old @ [turn ''user'' prompt]"
proof -
  obtain kv where m: "memory = JObj kv" and c: "map_of kv (js ''conversation'') = Some (JArr old)"
    using get_prop_array_object [OF assms] by blast
  show ?thesis
    by (simp add: m c update_context_def push_conversation_def update_conv' key_neq
        conversation_of_def record_field_def)
qed


lemma push_conversation_record:
  assumes "get_prop m (js ''conversation'') = Inr (JArr xs)"
  shows "\<exists>m2. push_conversation m t = Inr m2
    \<and> get_prop m2 (js ''conversation'') = Inr (JArr (xs @ [t]))
    \<and> get_prop m2 (js ''lastTask'') = get_prop m (js ''lastTask'')
    \<and> get_prop m2 (js ''lastProject'') = get_prop m (js ''lastProject'')"
proof -
  obtain kv where m: "m = JObj kv" and c: "map_of kv (js ''conversation'') = Some (JArr xs)"
    using get_prop_array_object [OF assms] by blast
  show ?thesis
    by (simp add: m c push_conversation_def update_conv' key_neq)
qed

lemma default_memory_conversation:
  "get_prop (default_memory userId) (js ''conversation'') =
     Inr (JArr [turn ''system'' (JStr SYSTEM_PROMPT)])"
  by (simp add: default_memory_def js_def)

lemma default_memory_fields:
  "record_field (default_memory userId) ''lastProject'' = JNull"
  "record_field (default_memory userId) ''lastTask'' = JNull"
  by (simp_all add: record_field_def default_memory_def js_def)

subsection \<open>Loading and saving\<close>

lemma loadMemory_absent:
  assumes "memory_path userId = Inr p"
    and "files w p = None \<or> files w p = Some Malformed \<or> files w p = Some Unreadable"
  shows "\<exists>w1. loadMemory w userId = Inr (default_memory userId, w1)
    \<and> files w1 = files w \<and> write_fails w1 = write_fails w"
  using assms by (auto simp: loadMemory_def called_def)

lemma loadMemory_parses:
  assumes "memory_path userId = Inr p" and "files w p = Some (Parses v)"
  shows "\<exists>w1. loadMemory w userId = Inr (v, w1)
    \<and> files w1 = files w \<and> write_fails w1 = write_fails w"
  using assms by (auto simp: loadMemory_def called_def)

lemma loadMemory_frame:
  assumes "loadMemory w userId = Inr (memory, w1)"
  shows "files w1 = files w \<and> write_fails w1 = write_fails w \<and> writes w1 = writes w"
  using assms
  by (auto simp: loadMemory_def called_def writes_def Let_def
      split: sum.splits option.splits stored.splits)


lemma saveMemory_result:
  assumes "memory_path userId = Inr p"
  shows "\<exists>w2. saveMemory w userId m = Inr w2
    \<and> files w2 = (if write_fails w p then files w else (files w)(p \<mapsto> Parses m))
    \<and> write_fails w2 = write_fails w \<and> writes w2 = writes w @ [p]"
  using assms by (simp add: saveMemory_def called_def writes_def Let_def)


subsection \<open>The handler on a well-formed request\<close>

lemma post_not_options: "js ''POST'' \<noteq> js ''OPTIONS''"
  by (simp add: js_def)

lemma handler_post_valid:
  assumes "req_method req = js ''POST''"
    and "get_prop (body req) (js ''prompt'') = Inr (JStr prompt)" and "prompt \<noteq> []"
    and "get_prop (body req) (js ''project'') = Inr project"
    and "get_prop (body req) (js ''userId'') = Inr userId" and "truthy userId"
    and "loadMemory w userId = Inr (memory, w1)"
  shows "handler create k w req =
    (case update_context memory project (JStr prompt) of
       Inl e \<Rightarrow> (ServerError (js ''Server error. Check backend logs.'') e, w1)
     | Inr m1 \<Rightarrow>
         (case create (conversation_of m1) of
            Throws msg \<Rightarrow>
              (ServerError (js ''Server error. Check backend logs.'') (ServiceError msg), w1)
          | Returns choices \<Rightarrow>
              (case push_conversation m1
                      (turn ''assistant'' (JStr (add_emoji k (sanitize (reply_text choices))))) of
                 Inl e \<Rightarrow> (ServerError (js ''Server error. Check backend logs.'') e, w1)
               | Inr m2 \<Rightarrow>
                   (case saveMemory w1 userId m2 of
                      Inl e \<Rightarrow> (ServerError (js ''Server error. Check backend logs.'') e, w1)
                    | Inr w2 \<Rightarrow>
                        (Ok (add_emoji k (sanitize (reply_text choices)))
                            (record_field m2 ''lastProject'') (record_field m2 ''lastTask''), w2)))))"
proof -
  have "req_method req \<noteq> js ''OPTIONS''"
    using assms(1) by (simp add: js_def)
  then show ?thesis
    using assms by (simp add: handler_def post_def Let_def split: sum.splits completion.splits)
qed

lemma handler_returns:
  assumes "req_method req = js ''POST''"
    and "get_prop (body req) (js ''prompt'') = Inr (JStr prompt)" and "prompt \<noteq> []"
    and "get_prop (body req) (js ''project'') = Inr project"
    and "get_prop (body req) (js ''userId'') = Inr userId" and "truthy userId"
    and "memory_path userId = Inr p"
    and "loadMemory w userId = Inr (memory, w1)"
    and "get_prop memory (js ''conversation'') = Inr (JArr old)"
    and "create (old @ [turn ''user'' (JStr prompt)]) = Returns choices"
  shows "\<exists>m2 w'. handler create k w req =
        (Ok (add_emoji k (sanitize (reply_text choices)))
            (if truthy project then project else record_field memory ''lastProject'')
            (JStr prompt), w')
    \<and> get_prop m2 (js ''conversation'') =
        Inr (JArr (old @ [turn ''user'' (JStr prompt),
                          turn ''assistant'' (JStr (add_emoji k (sanitize (reply_text choices))))]))
    \<and> get_prop m2 (js ''lastTask'') = Inr (JStr prompt)
    \<and> get_prop m2 (js ''lastProject'') =
        Inr (if truthy project then project else record_field memory ''lastProject'')
    \<and> files w' = (if write_fails w p then files w else (files w)(p \<mapsto> Parses m2))
    \<and> write_fails w' = write_fails w"
proof -
  let ?text = "add_emoji k (sanitize (reply_text choices))"
  obtain m1 where u: "update_context memory project (JStr prompt) = Inr m1"
    and c1: "get_prop m1 (js ''conversation'') = Inr (JArr (old @ [turn ''user'' (JStr prompt)]))"
    and t1: "get_prop m1 (js ''lastTask'') = Inr (JStr prompt)"
    and p1: "get_prop m1 (js ''lastProject'') =
        Inr (if truthy project then project else record_field memory ''lastProject'')"
    and v1: "conversation_of m1 = old @ [turn ''user'' (JStr prompt)]"
    using update_context_record [OF assms(9)] by blast
  obtain m2 where a: "push_conversation m1 (turn ''assistant'' (JStr ?text)) = Inr m2"
    and c2: "get_prop m2 (js ''conversation'') =
        Inr (JArr ((old @ [turn ''user'' (JStr prompt)]) @ [turn ''assistant'' (JStr ?text)]))"
    and t2: "get_prop m2 (js ''lastTask'') = get_prop m1 (js ''lastTask'')"
    and p2: "get_prop m2 (js ''lastProject'') = get_prop m1 (js ''lastProject'')"
    using push_conversation_record [OF c1] by blast
  have f: "files w1 = files w" and wf: "write_fails w1 = write_fails w"
    using loadMemory_frame [OF assms(8)] by simp_all
  obtain w2 where s: "saveMemory w1 userId m2 = Inr w2"
    and f2: "files w2 = (if write_fails w1 p then files w1 else (files w1)(p \<mapsto> Parses m2))"
    and wf2: "write_fails w2 = write_fails w1"
    using saveMemory_result [OF assms(7)] by blast
  have "handler create k w req =
      (Ok ?text (record_field m2 ''lastProject'') (record_field m2 ''lastTask''), w2)"
    using handler_post_valid [OF assms(1-6,8)] u v1 assms(10) a s by simp
  moreover have "record_field m2 ''lastProject'' =
      (if truthy project then project else record_field memory ''lastProject'')"
    using p2 p1 by (simp add: record_field_def)
  moreover have "record_field m2 ''lastTask'' = JStr prompt"
    using t2 t1 by (simp add: record_field_def)
  ultimately show ?thesis
    using c2 t2 t1 p2 p1 f2 wf2 f wf by auto
qed

lemma handler_status_200:
  assumes "req_method req = js ''POST''"
    and "get_prop (body req) (js ''prompt'') = Inr (JStr prompt)" and "prompt \<noteq> []"
    and "get_prop (body req) (js ''project'') = Inr project"
    and "get_prop (body req) (js ''userId'') = Inr userId" and "truthy userId"
    and "loadMemory w userId = Inr (memory, w1)"
    and "get_prop memory (js ''conversation'') = Inr (JArr old)"
    and "handler create k w req = (res, w')" and "status res = 200"
  shows "\<exists>choices. create (old @ [turn ''user'' (JStr prompt)]) = Returns choices"
proof (cases "create (old @ [turn ''user'' (JStr prompt)])")
  case (Throws msg)
  obtain m1 where "update_context memory project (JStr prompt) = Inr m1"
    and "conversation_of m1 = old @ [turn ''user'' (JStr prompt)]"
    using update_context_record [OF assms(8)] by blast
  then have "handler create k w req =
      (ServerError (js ''Server error. Check backend logs.'') (ServiceError msg), w1)"
    using handler_post_valid [OF assms(1-7)] Throws by simp
  with assms(9,10) show ?thesis
    by auto
next
  case (Returns choices)
  then show ?thesis
    by blast
qed




subsection \<open>Paths without a slash\<close>




lemma u1_memory_path: "memory_path (JStr (js ''u1'')) = Inr u1_path"
  by (simp add: memory_path_def path_join_def normalize_def MEMORY_DIR_def u1_path_def js_def)

subsection \<open>One scan for one phrase\<close>









subsection \<open>Glyphs and the character class\<close>

lemma starts_with_hd: "starts_with g t \<Longrightarrow> g \<noteq> [] \<Longrightarrow> t \<noteq> [] \<and> hd t = hd g"
  by (induction g t rule: starts_with.induct) auto

lemma contains_hd: "contains g t \<Longrightarrow> g \<noteq> [] \<Longrightarrow> hd g \<in> set t"
proof (induction g t rule: contains.induct)
  case (1 g)
  then show ?case
    by (cases g) simp_all
next
  case (2 g c cs)
  then show ?case
    using starts_with_hd [of g "c # cs"] by auto
qed

lemma approved_glyph_in_class:
  "g \<in> set approved_glyphs \<Longrightarrow> g \<noteq> [] \<and> hd g \<in> set emoji_class"
  by (auto simp: approved_glyphs_def emoji_class_def)

lemma glyph_passes_test:
  assumes "has_approved_glyph text"
  shows "emoji_test text"
proof -
  obtain g where g: "g \<in> set approved_glyphs" and c: "contains g text"
    using assms by (auto simp: has_approved_glyph_def list_ex_iff)
  then have "hd g \<in> set text" and "hd g \<in> set emoji_class"
    using contains_hd [OF c] approved_glyph_in_class [OF g] by simp_all
  then show ?thesis
    by (auto simp: emoji_test_def list_ex_iff)
qed

lemma glyph_kept: "has_approved_glyph text \<Longrightarrow> add_emoji k text = text"
  by (simp add: add_emoji_def glyph_passes_test)

lemma emoji_appended:
  assumes "\<not> emoji_test text" and "k < length emojis"
  shows "add_emoji k text = text @ js '' '' @ emojis ! k \<and> emojis ! k \<in> set emojis
    \<and> length emojis = 10"
  using assms by (simp add: add_emoji_def) (simp add: emojis_def)

subsection \<open>The example inputs\<close>

lemma hello_fields:
  "req_method hello_request = js ''POST''"
  "get_prop (body hello_request) (js ''prompt'') = Inr (JStr (js ''hi''))"
  "get_prop (body hello_request) (js ''project'') = Inr JUndefined"
  "get_prop (body hello_request) (js ''userId'') = Inr (JStr (js ''u1''))"
  by (simp_all add: hello_request_def js_def)

lemma hello_valid:
  "truthy (JStr (js ''u1''))" "js ''hi'' \<noteq> []"
  by (simp_all add: js_def)

lemma ok_reply: "add_emoji 0 (sanitize (reply_text [Choice (Some (Message (Some (js ''ok''))))])) =
    js ''ok '' @ [0xD83D, 0xDE04]"
  by (simp add: reply_text_def sanitize_def bannedPatterns_def add_emoji_def emoji_test_def
      emoji_class_def emojis_def canonicalize_def js_def)

lemma old_record_conversation:
  "get_prop old_record (js ''conversation'') =
     Inr (JArr [turn ''system'' (JStr SYSTEM_PROMPT), turn ''user'' (JStr (js ''old'')),
                turn ''assistant'' (JStr (js ''fine'' @ [0x2728]))])"
  by (simp add: old_record_def js_def)

lemma old_record_fields:
  "record_field old_record ''lastProject'' = JStr (js ''Alpha'')"
  "record_field old_record ''lastTask'' = JStr (js ''old'')"
  by (simp_all add: record_field_def old_record_def js_def)



section \<open>The record of a new user\<close>

text \<open>
  Claim C1, as amended. For a POST with a truthy \<^verbatim>\<open>userId\<close> that has no stored file
  and a non-empty string \<^verbatim>\<open>prompt\<close>: when the handler answers 200 and the write of
  \<^verbatim>\<open>saveMemory\<close> goes through, the stored record's conversation is exactly the system
  turn with the fixed prompt, the user turn with the request's prompt and the assistant
  turn with the text of the response, in this order.
\<close>

theorem new_user_record:
  assumes "req_method req = js ''POST''"
    and "get_prop (body req) (js ''prompt'') = Inr (JStr prompt)" and "prompt \<noteq> []"
    and "get_prop (body req) (js ''project'') = Inr project"
    and "get_prop (body req) (js ''userId'') = Inr userId" and "truthy userId"
    and "memory_path userId = Inr p" and "files w p = None"
    and "handler create k w req = (res, w')" and "status res = 200"
    and "\<not> write_fails w p"
  shows "\<exists>text lp rec. res = Ok text lp (JStr prompt) \<and> files w' p = Some (Parses rec)
    \<and> get_prop rec (js ''conversation'') =
        Inr (JArr [turn ''system'' (JStr SYSTEM_PROMPT), turn ''user'' (JStr prompt),
                   turn ''assistant'' (JStr text)])"
proof -
  obtain w1 where l: "loadMemory w userId = Inr (default_memory userId, w1)"
    using loadMemory_absent [OF assms(7)] assms(8) by blast
  note c = default_memory_conversation [of userId]
  obtain choices
    where r: "create ([turn ''system'' (JStr SYSTEM_PROMPT)] @ [turn ''user'' (JStr prompt)]) =
      Returns choices"
    using handler_status_200 [OF assms(1-6) l c assms(9,10)] by blast
  from handler_returns [where create = create and k = k, OF assms(1-7) l c r] assms(9,11) show ?thesis
    by auto
qed

theorem new_user_record_witness:
  "\<exists>rec. files (snd (handler ok_service 0 empty_world hello_request)) u1_path = Some (Parses rec)
    \<and> get_prop rec (js ''conversation'') =
        Inr (JArr [turn ''system'' (JStr SYSTEM_PROMPT), turn ''user'' (JStr (js ''hi'')),
                   turn ''assistant'' (JStr (js ''ok '' @ [0xD83D, 0xDE04]))])"
proof -
  have n: "files empty_world u1_path = None" and wf: "\<not> write_fails empty_world u1_path"
    by (simp_all add: empty_world_def)
  obtain w1
    where l: "loadMemory empty_world (JStr (js ''u1'')) = Inr (default_memory (JStr (js ''u1'')), w1)"
    using loadMemory_absent [OF u1_memory_path] n by blast
  have r: "ok_service ([turn ''system'' (JStr SYSTEM_PROMPT)] @ [turn ''user'' (JStr (js ''hi''))]) =
      Returns [Choice (Some (Message (Some (js ''ok''))))]"
    by (simp add: ok_service_def)
  obtain w' where h: "handler ok_service 0 empty_world hello_request =
      (Ok (js ''ok '' @ [0xD83D, 0xDE04]) JNull (JStr (js ''hi'')), w')"
    using handler_returns [where create = ok_service and k = 0, OF hello_fields(1,2) hello_valid(2)
        hello_fields(3,4) hello_valid(1) u1_memory_path l default_memory_conversation r]
    unfolding ok_reply default_memory_fields by auto
  have "status (Ok (js ''ok '' @ [0xD83D, 0xDE04]) JNull (JStr (js ''hi''))) = 200"
    by simp
  from new_user_record [OF hello_fields(1,2) hello_valid(2) hello_fields(3,4) hello_valid(1)
      u1_memory_path n h this wf]
  show ?thesis
    using h by auto
qed

text \<open>
  The claim as stated fails where the write throws: \<^verbatim>\<open>saveMemory\<close> swallows the
  error, the handler still answers 200, and no record is stored.
\<close>

theorem new_user_write_failure:
  "status (fst (handler ok_service 0 full_disk hello_request)) = 200
   \<and> files full_disk u1_path = None
   \<and> files (snd (handler ok_service 0 full_disk hello_request)) u1_path = None"
proof -
  have n: "files full_disk u1_path = None" and wf: "write_fails full_disk u1_path"
    by (simp_all add: full_disk_def)
  obtain w1
    where l: "loadMemory full_disk (JStr (js ''u1'')) = Inr (default_memory (JStr (js ''u1'')), w1)"
    using loadMemory_absent [OF u1_memory_path] n by blast
  have r: "ok_service ([turn ''system'' (JStr SYSTEM_PROMPT)] @ [turn ''user'' (JStr (js ''hi''))]) =
      Returns [Choice (Some (Message (Some (js ''ok''))))]"
    by (simp add: ok_service_def)
  from handler_returns [where create = ok_service and k = 0, OF hello_fields(1,2) hello_valid(2)
        hello_fields(3,4) hello_valid(1) u1_memory_path l default_memory_conversation r] n wf
  show ?thesis
    by auto
qed

section \<open>Removing the banned phrases, one scan each\<close>




section \<open>The emoji test\<close>

text \<open>
  Claim C3 says that an emoji is appended to every text that contains none of the
  approved glyphs. The code tests for the code units of those glyphs, not for the
  glyphs. The text \<^verbatim>\<open>O(n)\<close> written with the mathematical script capital O, U+1D4AA,
  holds no emoji, shares the low surrogate \<^verbatim>\<open>DCAA\<close> with the flexed biceps U+1F4AA,
  passes the test and gets nothing appended, whatever the random index. So does a text
  that ends in the pensive face U+1F614, which is none of the fifteen glyphs and shares
  the high surrogate \<^verbatim>\<open>D83D\<close> with most of them.
\<close>

theorem emoji_test_sees_code_units:
  "\<not> has_approved_glyph big_o \<and> add_emoji k big_o = big_o
   \<and> \<not> has_approved_glyph pole_sana \<and> add_emoji k pole_sana = pole_sana"
  by (simp add: has_approved_glyph_def approved_glyphs_def big_o_def pole_sana_def add_emoji_def
      emoji_test_def emoji_class_def js_def)

section \<open>Appending to a stored record\<close>

text \<open>
  Claim C4, as amended. For a POST with a truthy \<^verbatim>\<open>userId\<close> and a non-empty string
  \<^verbatim>\<open>prompt\<close> whose stored file parses to a record with a conversation array: when the
  handler answers 200 and the write of \<^verbatim>\<open>saveMemory\<close> goes through, the stored
  conversation is the prior one, unchanged and in its order, followed by the user turn
  with the prompt and the assistant turn with the text of the response.
\<close>

theorem prior_turns_kept:
  assumes "req_method req = js ''POST''"
    and "get_prop (body req) (js ''prompt'') = Inr (JStr prompt)" and "prompt \<noteq> []"
    and "get_prop (body req) (js ''project'') = Inr project"
    and "get_prop (body req) (js ''userId'') = Inr userId" and "truthy userId"
    and "memory_path userId = Inr p" and "files w p = Some (Parses rec)"
    and "get_prop rec (js ''conversation'') = Inr (JArr old)"
    and "handler create k w req = (res, w')" and "status res = 200"
    and "\<not> write_fails w p"
  shows "\<exists>text lp rec'. res = Ok text lp (JStr prompt) \<and> files w' p = Some (Parses rec')
    \<and> get_prop rec' (js ''conversation'') =
        Inr (JArr (old @ [turn ''user'' (JStr prompt), turn ''assistant'' (JStr text)]))"
proof -
  obtain w1 where l: "loadMemory w userId = Inr (rec, w1)"
    using loadMemory_parses [OF assms(7,8)] by blast
  obtain choices where r: "create (old @ [turn ''user'' (JStr prompt)]) = Returns choices"
    using handler_status_200 [OF assms(1-6) l assms(9,10,11)] by blast
  from handler_returns [where create = create and k = k, OF assms(1-7) l assms(9) r] assms(10,12)
  show ?thesis
    by auto
qed

theorem prior_turns_kept_witness:
  "\<exists>rec'. files (snd (handler ok_service 0 known_world hello_request)) u1_path = Some (Parses rec')
    \<and> get_prop rec' (js ''conversation'') =
        Inr (JArr ([turn ''system'' (JStr SYSTEM_PROMPT), turn ''user'' (JStr (js ''old'')),
                    turn ''assistant'' (JStr (js ''fine'' @ [0x2728]))]
                   @ [turn ''user'' (JStr (js ''hi'')),
                      turn ''assistant'' (JStr (js ''ok '' @ [0xD83D, 0xDE04]))]))"
proof -
  have f: "files known_world u1_path = Some (Parses old_record)"
    and wf: "\<not> write_fails known_world u1_path"
    by (simp_all add: known_world_def)
  obtain w1 where l: "loadMemory known_world (JStr (js ''u1'')) = Inr (old_record, w1)"
    using loadMemory_parses [OF u1_memory_path f] by blast
  have r: "ok_service ([turn ''system'' (JStr SYSTEM_PROMPT), turn ''user'' (JStr (js ''old'')),
                turn ''assistant'' (JStr (js ''fine'' @ [0x2728]))] @ [turn ''user'' (JStr (js ''hi''))]) =
      Returns [Choice (Some (Message (Some (js ''ok''))))]"
    by (simp add: ok_service_def)
  obtain w' where h: "handler ok_service 0 known_world hello_request =
      (Ok (js ''ok '' @ [0xD83D, 0xDE04]) (JStr (js ''Alpha'')) (JStr (js ''hi'')), w')"
    using handler_returns [where create = ok_service and k = 0, OF hello_fields(1,2) hello_valid(2)
        hello_fields(3,4) hello_valid(1) u1_memory_path l old_record_conversation r]
    unfolding ok_reply old_record_fields by auto
  have "status (Ok (js ''ok '' @ [0xD83D, 0xDE04]) (JStr (js ''Alpha'')) (JStr (js ''hi''))) = 200"
    by simp
  from prior_turns_kept [OF hello_fields(1,2) hello_valid(2) hello_fields(3,4) hello_valid(1)
      u1_memory_path f old_record_conversation h this wf]
  show ?thesis
    using h by auto
qed

text \<open>
  The claim as stated fails where nothing reaches the store. When the completion call
  throws, the answer is 500 and the stored record is the one from before the call. When
  the write throws, the answer is 200 and the stored record is again the one from before
  the call, with no turn appended.
\<close>

theorem prior_turns_not_appended:
  "status (fst (handler failing_service 0 known_world hello_request)) = 500
   \<and> files (snd (handler failing_service 0 known_world hello_request)) u1_path =
       Some (Parses old_record)
   \<and> status (fst (handler ok_service 0 known_full_disk hello_request)) = 200
   \<and> files known_full_disk u1_path = Some (Parses old_record)
   \<and> files (snd (handler ok_service 0 known_full_disk hello_request)) u1_path =
       Some (Parses old_record)"
proof -
  let ?old = "[turn ''system'' (JStr SYSTEM_PROMPT), turn ''user'' (JStr (js ''old'')),
      turn ''assistant'' (JStr (js ''fine'' @ [0x2728]))]"
  have f: "files known_full_disk u1_path = Some (Parses old_record)"
    and wf: "write_fails known_full_disk u1_path"
    by (simp_all add: known_full_disk_def)
  obtain w1 where l: "loadMemory known_full_disk (JStr (js ''u1'')) = Inr (old_record, w1)"
    using loadMemory_parses [OF u1_memory_path f] by blast
  have r: "ok_service (?old @ [turn ''user'' (JStr (js ''hi''))]) =
      Returns [Choice (Some (Message (Some (js ''ok''))))]"
    by (simp add: ok_service_def)
  have a: "status (fst (handler ok_service 0 known_full_disk hello_request)) = 200
      \<and> files (snd (handler ok_service 0 known_full_disk hello_request)) u1_path =
          Some (Parses old_record)"
    using handler_returns [where create = ok_service and k = 0, OF hello_fields(1,2) hello_valid(2)
        hello_fields(3,4) hello_valid(1) u1_memory_path l old_record_conversation r] f wf
    by auto
  have g: "files known_world u1_path = Some (Parses old_record)"
    by (simp add: known_world_def)
  obtain v1 where k: "loadMemory known_world (JStr (js ''u1'')) = Inr (old_record, v1)"
    and kf: "files v1 = files known_world"
    using loadMemory_parses [OF u1_memory_path g] by blast
  obtain m1 where u: "update_context old_record JUndefined (JStr (js ''hi'')) = Inr m1"
    using update_context_record [OF old_record_conversation] by blast
  have "handler failing_service 0 known_world hello_request =
      (ServerError (js ''Server error. Check backend logs.'') (ServiceError (js ''timeout'')), v1)"
    using handler_post_valid [OF hello_fields(1,2) hello_valid(2) hello_fields(3,4) hello_valid(1) k]
      u by (simp add: failing_service_def)
  then have b: "status (fst (handler failing_service 0 known_world hello_request)) = 500
      \<and> files (snd (handler failing_service 0 known_world hello_request)) u1_path =
          Some (Parses old_record)"
    using kf g by simp
  show ?thesis
    using a b f by simp
qed

section \<open>Requests that are refused\<close>

text \<open>
  Claim C5, as amended. A request whose method is neither POST nor OPTIONS is answered
  with 405. A POST whose body is not \<^verbatim>\<open>null\<close> or \<^verbatim>\<open>undefined\<close> is answered with
  400 and \<^verbatim>\<open>Missing userId.\<close> when its \<^verbatim>\<open>userId\<close> is missing or otherwise falsy (the
  empty string, zero, \<^verbatim>\<open>false\<close>, \<^verbatim>\<open>null\<close>), and with 400 and
  \<^verbatim>\<open>Invalid request: prompt required.\<close> when its \<^verbatim>\<open>userId\<close> is truthy and its
  \<^verbatim>\<open>prompt\<close> is missing, empty or not a string. In each of these cases the world is
  returned as it was: no file system call is made.
\<close>

theorem validation_errors:
  "(req_method req \<noteq> js ''OPTIONS'' \<and> req_method req \<noteq> js ''POST'' \<longrightarrow>
      handler create k w req = (Error 405 (js ''Method not allowed''), w))
   \<and> (req_method req = js ''POST''
      \<and> get_prop (body req) (js ''prompt'') = Inr prompt
      \<and> get_prop (body req) (js ''project'') = Inr project
      \<and> get_prop (body req) (js ''userId'') = Inr userId \<longrightarrow>
        (\<not> truthy userId \<longrightarrow>
           handler create k w req = (Error 400 (js ''Missing userId.''), w))
      \<and> (truthy userId \<and> (prompt = JUndefined \<or> prompt = JStr [] \<or> \<not> is_string prompt) \<longrightarrow>
           handler create k w req = (Error 400 (js ''Invalid request: prompt required.''), w)))"
  by (auto simp: handler_def post_def post_not_options)

theorem validation_errors_witness:
  "handler ok_service 0 empty_world get_request = (Error 405 (js ''Method not allowed''), empty_world)
   \<and> handler ok_service 0 empty_world empty_body_request =
       (Error 400 (js ''Missing userId.''), empty_world)
   \<and> handler ok_service 0 empty_world no_prompt_request =
       (Error 400 (js ''Invalid request: prompt required.''), empty_world)"
proof -
  have g: "req_method get_request \<noteq> js ''OPTIONS'' \<and> req_method get_request \<noteq> js ''POST''"
    by (simp add: get_request_def js_def)
  have e: "req_method empty_body_request = js ''POST''
      \<and> get_prop (body empty_body_request) (js ''prompt'') = Inr JUndefined
      \<and> get_prop (body empty_body_request) (js ''project'') = Inr JUndefined
      \<and> get_prop (body empty_body_request) (js ''userId'') = Inr JUndefined"
    by (simp add: empty_body_request_def)
  have n: "req_method no_prompt_request = js ''POST''
      \<and> get_prop (body no_prompt_request) (js ''prompt'') = Inr JUndefined
      \<and> get_prop (body no_prompt_request) (js ''project'') = Inr JUndefined
      \<and> get_prop (body no_prompt_request) (js ''userId'') = Inr (JStr (js ''u1''))"
    by (simp add: no_prompt_request_def js_def)
  from validation_errors [where req = get_request and create = ok_service and k = 0
        and w = empty_world] g
    validation_errors [where req = empty_body_request and create = ok_service and k = 0
        and w = empty_world and prompt = JUndefined and project = JUndefined
        and userId = JUndefined] e
    validation_errors [where req = no_prompt_request and create = ok_service and k = 0
        and w = empty_world and prompt = JUndefined and project = JUndefined
        and userId = "JStr (js ''u1'')"] n hello_valid(1)
  show ?thesis
    by simp
qed

text \<open>
  The claim as stated fails twice. A \<^verbatim>\<open>userId\<close> that is present and empty is
  answered \<^verbatim>\<open>Missing userId.\<close> also when the prompt is empty, since the test
  \<^verbatim>\<open>!userId\<close> comes first. A POST without a body has no \<^verbatim>\<open>userId\<close> either, and
  is answered 500: destructuring \<^verbatim>\<open>null\<close> throws inside the \<^verbatim>\<open>try\<close>.
\<close>

theorem validation_gaps:
  "get_prop (body empty_strings_request) (js ''userId'') = Inr (JStr [])
   \<and> get_prop (body empty_strings_request) (js ''prompt'') = Inr (JStr [])
   \<and> fst (handler ok_service 0 empty_world empty_strings_request) =
       Error 400 (js ''Missing userId.'')
   \<and> js ''Missing userId.'' \<noteq> js ''Invalid request: prompt required.''
   \<and> req_method no_body_request = js ''POST'' \<and> body no_body_request = JNull
   \<and> handler ok_service 0 empty_world no_body_request =
       (ServerError (js ''Server error. Check backend logs.'') TypeError, empty_world)
   \<and> status (fst (handler ok_service 0 empty_world no_body_request)) = 500"
  by (simp add: handler_def post_def empty_strings_request_def no_body_request_def js_def)

section \<open>A record that is absent or cannot be read\<close>

text \<open>
  Claim C6. When the file of a user is absent, does not parse as JSON or cannot be read,
  \<^verbatim>\<open>loadMemory\<close> returns the default record (the system turn alone in the
  conversation, \<^verbatim>\<open>lastProject\<close> and \<^verbatim>\<open>lastTask\<close> null), and the failure is not a
  request error: a valid request of that user whose completion call returns is answered
  with 200.
\<close>

theorem unreadable_record_defaults:
  assumes "memory_path userId = Inr p"
    and "files w p = None \<or> files w p = Some Malformed \<or> files w p = Some Unreadable"
  shows "(\<exists>w1. loadMemory w userId = Inr (default_memory userId, w1))
    \<and> get_prop (default_memory userId) (js ''conversation'') =
        Inr (JArr [turn ''system'' (JStr SYSTEM_PROMPT)])
    \<and> record_field (default_memory userId) ''lastProject'' = JNull
    \<and> record_field (default_memory userId) ''lastTask'' = JNull
    \<and> (\<forall>create k req prompt project choices.
          req_method req = js ''POST''
        \<and> get_prop (body req) (js ''prompt'') = Inr (JStr prompt) \<and> prompt \<noteq> []
        \<and> get_prop (body req) (js ''project'') = Inr project
        \<and> get_prop (body req) (js ''userId'') = Inr userId \<and> truthy userId
        \<and> create [turn ''system'' (JStr SYSTEM_PROMPT), turn ''user'' (JStr prompt)] =
            Returns choices
        \<longrightarrow> status (fst (handler create k w req)) = 200)"
proof -
  obtain w1 where l: "loadMemory w userId = Inr (default_memory userId, w1)"
    using loadMemory_absent [OF assms] by blast
  have "status (fst (handler create k w req)) = 200"
    if "req_method req = js ''POST''"
      and "get_prop (body req) (js ''prompt'') = Inr (JStr prompt)" and "prompt \<noteq> []"
      and "get_prop (body req) (js ''project'') = Inr project"
      and "get_prop (body req) (js ''userId'') = Inr userId" and "truthy userId"
      and "create [turn ''system'' (JStr SYSTEM_PROMPT), turn ''user'' (JStr prompt)] =
            Returns choices"
    for create k req prompt project choices
  proof -
    have "create ([turn ''system'' (JStr SYSTEM_PROMPT)] @ [turn ''user'' (JStr prompt)]) =
        Returns choices"
      using that(7) by simp
    from handler_returns [where create = create and k = k, OF that(1-6) assms(1) l
        default_memory_conversation this]
    show ?thesis
      by auto
  qed
  then show ?thesis
    using l default_memory_conversation [of userId] default_memory_fields [of userId] by blast
qed

theorem unreadable_record_defaults_witness:
  "(\<exists>w1. loadMemory malformed_world (JStr (js ''u1'')) = Inr (default_memory (JStr (js ''u1'')), w1))
   \<and> status (fst (handler ok_service 0 malformed_world hello_request)) = 200"
proof -
  have f: "files malformed_world u1_path = None \<or> files malformed_world u1_path = Some Malformed
      \<or> files malformed_world u1_path = Some Unreadable"
    by (simp add: malformed_world_def)
  have r: "ok_service [turn ''system'' (JStr SYSTEM_PROMPT), turn ''user'' (JStr (js ''hi''))] =
      Returns [Choice (Some (Message (Some (js ''ok''))))]"
    by (simp add: ok_service_def)
  from unreadable_record_defaults [OF u1_memory_path f] hello_fields hello_valid r
  show ?thesis
    by blast
qed

section \<open>A failing completion service\<close>

text \<open>
  Claim C7. When the call to the completion service throws, the handler answers with
  status 500, the error text \<^verbatim>\<open>Server error. Check backend logs.\<close> and the
  message of the thrown error as details, and the store is as it was before the request:
  no file has changed and no write call was made, so the user turn appended in memory is
  not persisted. The request is a POST with a truthy \<^verbatim>\<open>userId\<close> and a non-empty
  string \<^verbatim>\<open>prompt\<close> whose record loads and takes the user turn; the service is called
  with the conversation of that record.
\<close>

theorem service_failure_keeps_store:
  assumes "req_method req = js ''POST''"
    and "get_prop (body req) (js ''prompt'') = Inr (JStr prompt)" and "prompt \<noteq> []"
    and "get_prop (body req) (js ''project'') = Inr project"
    and "get_prop (body req) (js ''userId'') = Inr userId" and "truthy userId"
    and "loadMemory w userId = Inr (memory, w1)"
    and "update_context memory project (JStr prompt) = Inr m1"
    and "create (conversation_of m1) = Throws msg"
    and "handler create k w req = (res, w')"
  shows "res = ServerError (js ''Server error. Check backend logs.'') (ServiceError msg)
    \<and> status res = 500 \<and> files w' = files w \<and> writes w' = writes w"
proof -
  have "handler create k w req =
      (ServerError (js ''Server error. Check backend logs.'') (ServiceError msg), w1)"
    using handler_post_valid [OF assms(1-7)] assms(8,9) by simp
  with assms(10) loadMemory_frame [OF assms(7)] show ?thesis
    by auto
qed

theorem service_failure_keeps_store_witness:
  "fst (handler failing_service 0 empty_world hello_request) =
     ServerError (js ''Server error. Check backend logs.'') (ServiceError (js ''timeout''))
   \<and> status (fst (handler failing_service 0 empty_world hello_request)) = 500
   \<and> files (snd (handler failing_service 0 empty_world hello_request)) = files empty_world
   \<and> writes (snd (handler failing_service 0 empty_world hello_request)) = writes empty_world"
proof -
  let ?w1 = "called (ExistsSync u1_path) empty_world"
  have l: "loadMemory empty_world (JStr (js ''u1'')) = Inr (default_memory (JStr (js ''u1'')), ?w1)"
    by (simp add: loadMemory_def u1_memory_path empty_world_def)
  obtain m1
    where u: "update_context (default_memory (JStr (js ''u1''))) JUndefined (JStr (js ''hi'')) = Inr m1"
    using update_context_record [OF default_memory_conversation] by blast
  have c: "failing_service (conversation_of m1) = Throws (js ''timeout'')"
    by (simp add: failing_service_def)
  have t: "truthy (JStr (js ''u1''))" and n: "js ''hi'' \<noteq> []"
    by (simp_all add: js_def)
  obtain res w' where h: "handler failing_service 0 empty_world hello_request = (res, w')"
    by (cases "handler failing_service 0 empty_world hello_request")
  from service_failure_keeps_store [OF hello_fields(1,2) n hello_fields(3,4) t l u c h] h
  show ?thesis
    by simp
qed

section \<open>The last task and the last project\<close>




section \<open>One file per user\<close>




section \<open>A stored value of the wrong shape\<close>



end
